theory Spec2Isabelle
  imports Complex_Main "HOL-Library.Sublist"
begin

section \<open>The alert pipeline of the user dashboard\<close>

text \<open>
  The development embeds the alert functions of \<^verbatim>\<open>assets/js/user_dashboard.js\<close>:
  \<^verbatim>\<open>handleAlertSubmit\<close>, \<^verbatim>\<open>getAlerts\<close>, \<^verbatim>\<open>deleteAlert\<close>, the body of the timer of
  \<^verbatim>\<open>startMockTicker\<close>, \<^verbatim>\<open>checkAlerts\<close> and \<^verbatim>\<open>notifyUser\<close> with the callbacks it
  registers.

  JavaScript numbers are modelled as real numbers: rounding to IEEE doubles is outside
  the model. The not-a-number value and the two infinite values are kept where the code
  can meet them (the result of \<^verbatim>\<open>parseFloat\<close>); \<^verbatim>\<open>null\<close> is \<open>None\<close>.
\<close>

subsection \<open>The platform function JSON.parse\<close>

text \<open>
  \<^verbatim>\<open>JSON.parse\<close> is a function of the platform; it is modelled after the JSON grammar it
  implements (ECMA-404): a scanner, one character at a time, that produces tokens, and a
  stack machine over the tokens that builds the value. Both are structurally recursive, so
  the parser is total: on every text it returns a value or the error \<open>SyntaxError\<close>.

  The text is a list of 8-bit characters. The strings of the result are lists of code
  units, since an escape \<^verbatim>\<open>\uXXXX\<close> denotes any 16-bit unit. The members of an object are
  kept in the order of the text; a later member hides an earlier one of the same key.
\<close>

text \<open>The exceptions that the alert functions can meet.\<close>

datatype js_error = SyntaxError | TypeError | NetworkError

text \<open>A string of a parsed value, as its code units, and the parsed values.\<close>

type_synonym jsstring = "nat list"

datatype json =
    JNull
  | JBool bool
  | JNum real
  | JStr jsstring
  | JArr "json list"
  | JObj "(jsstring \<times> json) list"

text \<open>
  The tokens: the six structural characters, and a scalar value (a string, a number,
  \<^verbatim>\<open>true\<close>, \<^verbatim>\<open>false\<close> or \<^verbatim>\<open>null\<close>).
\<close>

datatype token = TLBrace | TRBrace | TLBrack | TRBrack | TColon | TComma | TVal json

text \<open>
  The scanner inside a number: how far it is in \<^verbatim>\<open>-? int frac? exp?\<close> (after the minus
  sign, after a leading zero, in the digits of the integer part, after the point, in the
  digits of the fraction, after the \<^verbatim>\<open>e\<close>, after the sign of the exponent, in the digits
  of the exponent), and what it has read: the sign, the digits of the integer part and the
  fraction as one numeral, the number of digits of the fraction, the sign and the value of
  the exponent.
\<close>

datatype numphase = NMinus | NZero | NInt | NDot | NFrac | NE | NESign | NExp

record numacc =
  phase :: numphase
  neg :: bool
  mant :: nat
  fdigits :: nat
  eneg :: bool
  ex :: nat

text \<open>
  The states of the scanner: between tokens; inside a string, with the units read so far,
  last first; after a backslash; inside the four hexadecimal digits of \<^verbatim>\<open>\uXXXX\<close>; inside
  a number; inside \<^verbatim>\<open>true\<close>, \<^verbatim>\<open>false\<close> or \<^verbatim>\<open>null\<close>, with the characters still
  expected.
\<close>

datatype lexstate =
    LStart
  | LStr jsstring
  | LEsc jsstring
  | LUni jsstring "nat list"
  | LNum numacc
  | LLit string json

text \<open>White space is the space, the tab, the line feed and the carriage return.\<close>

definition is_ws :: "char \<Rightarrow> bool" where
  "is_ws c = (c = CHR '' '' \<or> c = CHR 0x09 \<or> c = CHR 0x0A \<or> c = CHR 0x0D)"

definition is_digit :: "char \<Rightarrow> bool" where
  "is_digit c = (48 \<le> (of_char c :: nat) \<and> (of_char c :: nat) \<le> 57)"

definition digit_val :: "char \<Rightarrow> nat" where
  "digit_val c = of_char c - 48"

definition hex_val :: "char \<Rightarrow> nat option" where
  "hex_val c =
     (let n = (of_char c :: nat)
      in if 48 \<le> n \<and> n \<le> 57 then Some (n - 48)
         else if 97 \<le> n \<and> n \<le> 102 then Some (n - 87)
         else if 65 \<le> n \<and> n \<le> 70 then Some (n - 55)
         else None)"

text \<open>The value of a number read, and the phases in which a number may end.\<close>

definition num_value :: "numacc \<Rightarrow> real" where
  "num_value a =
     (let m = real (mant a) / 10 ^ fdigits a;
          v = (if eneg a then m / 10 ^ ex a else m * 10 ^ ex a)
      in if neg a then - v else v)"

definition num_accepting :: "numacc \<Rightarrow> bool" where
  "num_accepting a = (phase a = NZero \<or> phase a = NInt \<or> phase a = NFrac \<or> phase a = NExp)"

text \<open>One character between tokens.\<close>

definition lex_start :: "char \<Rightarrow> (token list \<times> lexstate) option" where
  "lex_start c =
     (if is_ws c then Some ([], LStart)
      else if c = CHR ''{'' then Some ([TLBrace], LStart)
      else if c = CHR ''}'' then Some ([TRBrace], LStart)
      else if c = CHR ''['' then Some ([TLBrack], LStart)
      else if c = CHR '']'' then Some ([TRBrack], LStart)
      else if c = CHR '':'' then Some ([TColon], LStart)
      else if c = CHR '','' then Some ([TComma], LStart)
      else if c = CHR 0x22 then Some ([], LStr [])
      else if c = CHR ''-'' then
        Some ([], LNum \<lparr>phase = NMinus, neg = True, mant = 0, fdigits = 0, eneg = False, ex = 0\<rparr>)
      else if c = CHR ''0'' then
        Some ([], LNum \<lparr>phase = NZero, neg = False, mant = 0, fdigits = 0, eneg = False, ex = 0\<rparr>)
      else if is_digit c then
        Some ([], LNum \<lparr>phase = NInt, neg = False, mant = digit_val c, fdigits = 0, eneg = False, ex = 0\<rparr>)
      else if c = CHR ''t'' then Some ([], LLit ''rue'' (JBool True))
      else if c = CHR ''f'' then Some ([], LLit ''alse'' (JBool False))
      else if c = CHR ''n'' then Some ([], LLit ''ull'' JNull)
      else None)"

text \<open>
  A character that does not continue a number ends it, where the number may end, and is
  read as a character between tokens.
\<close>

definition num_end :: "numacc \<Rightarrow> char \<Rightarrow> (token list \<times> lexstate) option" where
  "num_end a c =
     (if num_accepting a then
        (case lex_start c of
           None \<Rightarrow> None
         | Some (ts, s) \<Rightarrow> Some (TVal (JNum (num_value a)) # ts, s))
      else None)"

definition lex_num :: "numacc \<Rightarrow> char \<Rightarrow> (token list \<times> lexstate) option" where
  "lex_num a c =
     (case phase a of
        NMinus \<Rightarrow>
          (if c = CHR ''0'' then Some ([], LNum (a\<lparr>phase := NZero\<rparr>))
           else if is_digit c then Some ([], LNum (a\<lparr>phase := NInt, mant := digit_val c\<rparr>))
           else None)
      | NZero \<Rightarrow>
          (if c = CHR ''.'' then Some ([], LNum (a\<lparr>phase := NDot\<rparr>))
           else if c = CHR ''e'' \<or> c = CHR ''E'' then Some ([], LNum (a\<lparr>phase := NE\<rparr>))
           else num_end a c)
      | NInt \<Rightarrow>
          (if is_digit c then Some ([], LNum (a\<lparr>mant := 10 * mant a + digit_val c\<rparr>))
           else if c = CHR ''.'' then Some ([], LNum (a\<lparr>phase := NDot\<rparr>))
           else if c = CHR ''e'' \<or> c = CHR ''E'' then Some ([], LNum (a\<lparr>phase := NE\<rparr>))
           else num_end a c)
      | NDot \<Rightarrow>
          (if is_digit c then
             Some ([], LNum (a\<lparr>phase := NFrac, mant := 10 * mant a + digit_val c, fdigits := 1\<rparr>))
           else None)
      | NFrac \<Rightarrow>
          (if is_digit c then
             Some ([], LNum (a\<lparr>mant := 10 * mant a + digit_val c, fdigits := Suc (fdigits a)\<rparr>))
           else if c = CHR ''e'' \<or> c = CHR ''E'' then Some ([], LNum (a\<lparr>phase := NE\<rparr>))
           else num_end a c)
      | NE \<Rightarrow>
          (if c = CHR ''+'' then Some ([], LNum (a\<lparr>phase := NESign\<rparr>))
           else if c = CHR ''-'' then Some ([], LNum (a\<lparr>phase := NESign, eneg := True\<rparr>))
           else if is_digit c then Some ([], LNum (a\<lparr>phase := NExp, ex := digit_val c\<rparr>))
           else None)
      | NESign \<Rightarrow>
          (if is_digit c then Some ([], LNum (a\<lparr>phase := NExp, ex := digit_val c\<rparr>))
           else None)
      | NExp \<Rightarrow>
          (if is_digit c then Some ([], LNum (a\<lparr>ex := 10 * ex a + digit_val c\<rparr>))
           else num_end a c))"

text \<open>The character after a backslash, inside a string.\<close>

definition lex_esc :: "jsstring \<Rightarrow> char \<Rightarrow> (token list \<times> lexstate) option" where
  "lex_esc acc c =
     (if c = CHR 0x22 then Some ([], LStr (0x22 # acc))
      else if c = CHR 0x5C then Some ([], LStr (0x5C # acc))
      else if c = CHR ''/'' then Some ([], LStr (0x2F # acc))
      else if c = CHR ''b'' then Some ([], LStr (0x08 # acc))
      else if c = CHR ''f'' then Some ([], LStr (0x0C # acc))
      else if c = CHR ''n'' then Some ([], LStr (0x0A # acc))
      else if c = CHR ''r'' then Some ([], LStr (0x0D # acc))
      else if c = CHR ''t'' then Some ([], LStr (0x09 # acc))
      else if c = CHR ''u'' then Some ([], LUni acc [])
      else None)"

text \<open>
  One character in any state. A string ends at the closing quote; a control character
  (below \<^verbatim>\<open>0x20\<close>) is not allowed in it.
\<close>

definition lex_step :: "lexstate \<Rightarrow> char \<Rightarrow> (token list \<times> lexstate) option" where
  "lex_step s c =
     (case s of
        LStart \<Rightarrow> lex_start c
      | LStr acc \<Rightarrow>
          (if c = CHR 0x22 then Some ([TVal (JStr (rev acc))], LStart)
           else if c = CHR 0x5C then Some ([], LEsc acc)
           else if of_char c < (0x20::nat) then None
           else Some ([], LStr (of_char c # acc)))
      | LEsc acc \<Rightarrow> lex_esc acc c
      | LUni acc hs \<Rightarrow>
          (case hex_val c of
             None \<Rightarrow> None
           | Some h \<Rightarrow>
               (if length hs = 3 then Some ([], LStr (foldl (\<lambda>v d. 16 * v + d) 0 (hs @ [h]) # acc))
                else Some ([], LUni acc (hs @ [h]))))
      | LNum a \<Rightarrow> lex_num a c
      | LLit rest v \<Rightarrow>
          (case rest of
             [] \<Rightarrow> None
           | x # xs \<Rightarrow>
               (if c \<noteq> x then None
                else if xs = [] then Some ([TVal v], LStart)
                else Some ([], LLit xs v))))"

text \<open>The end of the text: only between tokens, or where a number may end.\<close>

definition lex_end :: "lexstate \<Rightarrow> token list option" where
  "lex_end s =
     (case s of
        LStart \<Rightarrow> Some []
      | LNum a \<Rightarrow> (if num_accepting a then Some [TVal (JNum (num_value a))] else None)
      | _ \<Rightarrow> None)"

fun lex_run :: "lexstate \<Rightarrow> string \<Rightarrow> token list option" where
  "lex_run s [] = lex_end s"
| "lex_run s (c # cs) =
     (case lex_step s c of
        None \<Rightarrow> None
      | Some (ts, s') \<Rightarrow> map_option ((@) ts) (lex_run s' cs))"

text \<open>
  The parser keeps a stack of the arrays and objects that are open, each with the elements
  or members read so far, last first, and for an object the key that waits for its value.
  Its mode says what may come next: a value; a value or the end of an empty array; a key or
  the end of an empty object; a key; a colon; a comma or the end of the innermost array or
  object; nothing, the value being complete.
\<close>

datatype frame = InArr "json list" | InObj "(jsstring \<times> json) list" "jsstring option"

datatype pmode = PValue | PValueOrClose | PKeyOrClose | PKey | PColon | PAfter | PDone json

fun push_value :: "json \<Rightarrow> frame list \<Rightarrow> (pmode \<times> frame list) option" where
  "push_value v [] = Some (PDone v, [])"
| "push_value v (InArr items # st) = Some (PAfter, InArr (v # items) # st)"
| "push_value v (InObj ms (Some k) # st) = Some (PAfter, InObj ((k, v) # ms) None # st)"
| "push_value v (InObj ms None # st) = None"

fun open_value :: "token \<Rightarrow> frame list \<Rightarrow> (pmode \<times> frame list) option" where
  "open_value (TVal v) st = push_value v st"
| "open_value TLBrack st = Some (PValueOrClose, InArr [] # st)"
| "open_value TLBrace st = Some (PKeyOrClose, InObj [] None # st)"
| "open_value _ st = None"

fun set_key :: "token \<Rightarrow> frame list \<Rightarrow> (pmode \<times> frame list) option" where
  "set_key (TVal (JStr k)) (InObj ms None # st) = Some (PColon, InObj ms (Some k) # st)"
| "set_key _ _ = None"

fun parse_step :: "pmode \<Rightarrow> frame list \<Rightarrow> token \<Rightarrow> (pmode \<times> frame list) option" where
  "parse_step PValue st t = open_value t st"
| "parse_step PValueOrClose st t =
     (case (t, st) of
        (TRBrack, InArr [] # st') \<Rightarrow> push_value (JArr []) st'
      | _ \<Rightarrow> open_value t st)"
| "parse_step PKeyOrClose st t =
     (case (t, st) of
        (TRBrace, InObj [] None # st') \<Rightarrow> push_value (JObj []) st'
      | _ \<Rightarrow> set_key t st)"
| "parse_step PKey st t = set_key t st"
| "parse_step PColon st t = (if t = TColon then Some (PValue, st) else None)"
| "parse_step PAfter st t =
     (case (t, st) of
        (TComma, InArr items # st') \<Rightarrow> Some (PValue, st)
      | (TComma, InObj ms None # st') \<Rightarrow> Some (PKey, st)
      | (TRBrack, InArr items # st') \<Rightarrow> push_value (JArr (rev items)) st'
      | (TRBrace, InObj ms None # st') \<Rightarrow> push_value (JObj (rev ms)) st'
      | _ \<Rightarrow> None)"
| "parse_step (PDone v) st t = None"

fun parse_run :: "pmode \<Rightarrow> frame list \<Rightarrow> token list \<Rightarrow> json option" where
  "parse_run m st [] = (case m of PDone v \<Rightarrow> Some v | _ \<Rightarrow> None)"
| "parse_run m st (t # ts) =
     (case parse_step m st t of
        None \<Rightarrow> None
      | Some (m', st') \<Rightarrow> parse_run m' st' ts)"

text \<open>Any failure of the scanner or of the parser is the exception \<open>SyntaxError\<close>.\<close>

definition JSON_parse :: "string \<Rightarrow> js_error + json" where
  "JSON_parse text =
     (case lex_run LStart text of
        None \<Rightarrow> Inl SyntaxError
      | Some ts \<Rightarrow>
          (case parse_run PValue [] ts of
             None \<Rightarrow> Inl SyntaxError
           | Some v \<Rightarrow> Inr v))"

subsection \<open>Reading the alert store: getAlerts\<close>

text \<open>
  \<^verbatim>\<open>return JSON.parse(localStorage.getItem('stockVisionAlerts') || '[]');\<close>

  The argument is what \<^verbatim>\<open>localStorage.getItem\<close> returns for the key: \<open>None\<close> when the
  key is unset, the stored text otherwise. The empty text is falsy, so it is replaced by
  \<^verbatim>\<open>'[]'\<close> as well. There is no handler around the call of \<^verbatim>\<open>JSON.parse\<close>: its
  exception is the exception of \<open>getAlerts\<close>.
\<close>

definition getAlerts :: "string option \<Rightarrow> js_error + json" where
  "getAlerts item =
     JSON_parse (case item of None \<Rightarrow> ''[]'' | Some s \<Rightarrow> if s = [] then ''[]'' else s)"

subsection \<open>Numbers, null and truthiness\<close>

text \<open>
  The result of \<^verbatim>\<open>parseFloat\<close> on the text of a form field: not-a-number for a blank or
  unreadable field; an infinite value for a text such as \<^verbatim>\<open>Infinity\<close> or \<^verbatim>\<open>1e309\<close>, which
  is beyond the largest double; a finite number otherwise.
\<close>

datatype jsnum = NaN | Num real | PosInf | NegInf

text \<open>
  \<^verbatim>\<open>!x\<close> for the result of \<^verbatim>\<open>parseFloat\<close>: not-a-number and zero are falsy, the
  infinite values are not.
\<close>

fun falsy :: "jsnum \<Rightarrow> bool" where
  "falsy NaN = True"
| "falsy (Num r) = (r = 0)"
| "falsy PosInf = False"
| "falsy NegInf = False"

text \<open>\<^verbatim>\<open>x || null\<close> for the result of \<^verbatim>\<open>parseFloat\<close>: the value in memory.\<close>

definition or_null :: "jsnum \<Rightarrow> jsnum option" where
  "or_null x = (if falsy x then None else Some x)"

text \<open>
  What \<^verbatim>\<open>JSON.stringify\<close> writes for a number or null, as \<^verbatim>\<open>JSON.parse\<close> reads it
  back: a finite number is kept; not-a-number and the infinite values are written as
  \<^verbatim>\<open>null\<close>.
\<close>

fun stringified :: "jsnum option \<Rightarrow> real option" where
  "stringified None = None"
| "stringified (Some (Num r)) = Some r"
| "stringified (Some NaN) = None"
| "stringified (Some PosInf) = None"
| "stringified (Some NegInf) = None"

text \<open>\<^verbatim>\<open>x || d\<close> for a stored threshold \<open>x\<close> (a number or null) and a number \<open>d\<close>.\<close>

fun or_else :: "real option \<Rightarrow> real \<Rightarrow> real" where
  "or_else None d = d"
| "or_else (Some r) d = (if r = 0 then d else r)"

text \<open>\<^verbatim>\<open>alert.high && price > alert.high\<close> and \<^verbatim>\<open>alert.low && price < alert.low\<close>.\<close>

fun crossed_above :: "real option \<Rightarrow> real \<Rightarrow> bool" where
  "crossed_above None price = False"
| "crossed_above (Some h) price = (h \<noteq> 0 \<and> price > h)"

fun dropped_below :: "real option \<Rightarrow> real \<Rightarrow> bool" where
  "dropped_below None price = False"
| "dropped_below (Some l) price = (l \<noteq> 0 \<and> price < l)"

subsection \<open>Alerts and the state of the page\<close>

text \<open>
  An alert as \<open>handleAlertSubmit\<close> builds it and \<open>JSON.stringify\<close> stores it. The field
  \<^verbatim>\<open>id\<close> is \<open>alert_id\<close> here.
\<close>

record alert =
  symbol :: string
  high :: "real option"
  low :: "real option"
  alert_id :: int

text \<open>What the alert functions write to the console.\<close>

datatype console_entry =
    Log_alert string
  | Log_results "json option"
  | Warn_failed "json option"
  | Error_trigger js_error

text \<open>
  The state the alert functions read and write. For a store that holds the text of an alert
  array, the state keeps the array that \<open>getAlerts\<close> returns for it, and \<open>saveAlerts\<close>
  replaces it: \<open>stockVisionAlerts\<close>. \<open>lastNotification\<close> is the key of the session storage.
  \<open>granted\<close> is the value of
  \<^verbatim>\<open>"Notification" in window && Notification.permission === "granted"\<close>,
  \<open>timers\<close> counts the pending timers that clear the cache, \<open>shown\<close> lists the bodies of the
  browser notifications created, \<open>requests\<close> the messages posted to
  \<^verbatim>\<open>/api/alert/trigger\<close>, \<open>dialogs\<close> the texts of the \<^verbatim>\<open>alert(...)\<close> dialogs. Rendering
  the list of alerts and resetting the form change the document only and are left out.
\<close>

record state =
  stockVisionAlerts :: "alert list"
  lastNotification :: "string option"
  granted :: bool
  timers :: nat
  shown :: "string list"
  requests :: "string list"
  console :: "console_entry list"
  dialogs :: "string list"

subsection \<open>The alert store: handleAlertSubmit and deleteAlert\<close>

text \<open>
  \<open>hi\<close> and \<open>lo\<close> are the results of \<^verbatim>\<open>parseFloat\<close> on the two threshold fields, \<open>now\<close>
  is \<^verbatim>\<open>Date.now()\<close>. The new alert holds \<^verbatim>\<open>high || null\<close> and \<^verbatim>\<open>low || null\<close>; it is
  pushed on the array that \<open>getAlerts\<close> returned, and \<open>saveAlerts\<close> writes the array with
  \<^verbatim>\<open>JSON.stringify\<close>. The alerts read from the store are written as they were read; the
  thresholds of the new one are stored as \<open>stringified\<close> gives them.
\<close>

definition handleAlertSubmit :: "string \<Rightarrow> jsnum \<Rightarrow> jsnum \<Rightarrow> int \<Rightarrow> state \<Rightarrow> state" where
  "handleAlertSubmit symb hi lo now st =
     (if falsy hi \<and> falsy lo then
        st\<lparr>dialogs := dialogs st @ [''Please set at least one threshold (High or Low).'']\<rparr>
      else
        st\<lparr>stockVisionAlerts :=
              stockVisionAlerts st @
                [\<lparr>symbol = symb, high = stringified (or_null hi),
                  low = stringified (or_null lo), alert_id = now\<rparr>],
            dialogs := dialogs st @ [''Alert set for '' @ symb]\<rparr>)"

definition deleteAlert :: "int \<Rightarrow> state \<Rightarrow> state" where
  "deleteAlert i st =
     st\<lparr>stockVisionAlerts := filter (\<lambda>a. alert_id a \<noteq> i) (stockVisionAlerts st)\<rparr>"

subsection \<open>The notification dispatcher: notifyUser\<close>

text \<open>\<^verbatim>\<open>if (lastNotif && lastNotif === message) return;\<close> The empty string is falsy.\<close>

definition is_duplicate :: "string option \<Rightarrow> string \<Rightarrow> bool" where
  "is_duplicate lastNotif message =
     (case lastNotif of None \<Rightarrow> False | Some l \<Rightarrow> l \<noteq> [] \<and> l = message)"

definition notifyUser :: "string \<Rightarrow> state \<Rightarrow> state" where
  "notifyUser message st =
     (if is_duplicate (lastNotification st) message then st
      else
        st\<lparr>lastNotification := Some message,
            timers := Suc (timers st),
            shown := (if granted st then shown st @ [message] else shown st),
            requests := requests st @ [message],
            console := console st @ [Log_alert message]\<rparr>)"

text \<open>
  The callback of \<^verbatim>\<open>setTimeout(() => sessionStorage.removeItem('lastNotification'), 30000)\<close>.
  It runs only when such a timer is pending.
\<close>

definition cache_timer_fires :: "state \<Rightarrow> state" where
  "cache_timer_fires st =
     (if timers st = 0 then st
      else st\<lparr>lastNotification := None, timers := timers st - 1\<rparr>)"

text \<open>
  How the request to \<^verbatim>\<open>/api/alert/trigger\<close> ends: the promise of \<^verbatim>\<open>fetch\<close> is rejected
  (a network error), or there is a response, with the text of its body.
\<close>

datatype fetch_outcome = Rejected | Responded string

text \<open>
  Reading a property of a parsed value: \<^verbatim>\<open>undefined\<close> is \<open>None\<close>. The keys read here are
  no properties of a number, a string, a boolean or an array.
\<close>

fun lookup :: "json \<Rightarrow> string \<Rightarrow> json option" where
  "lookup (JObj ms) k = map_of (rev ms) (map of_char k)"
| "lookup _ k = None"

fun truthy_json :: "json option \<Rightarrow> bool" where
  "truthy_json None = False"
| "truthy_json (Some JNull) = False"
| "truthy_json (Some (JBool b)) = b"
| "truthy_json (Some (JNum r)) = (r \<noteq> 0)"
| "truthy_json (Some (JStr s)) = (s \<noteq> [])"
| "truthy_json (Some (JArr xs)) = True"
| "truthy_json (Some (JObj ms)) = True"

text \<open>
  The chain \<^verbatim>\<open>.then(res => res.json()).then(data => ...).catch(err => ...)\<close>: the one
  entry it writes to the console. \<^verbatim>\<open>res.json()\<close> rejects when the body is no JSON text;
  \<^verbatim>\<open>data.success\<close> throws when \<open>data\<close> is null; both end in the \<^verbatim>\<open>catch\<close>.
\<close>

definition trigger_result :: "fetch_outcome \<Rightarrow> console_entry" where
  "trigger_result outcome =
     (case outcome of
        Rejected \<Rightarrow> Error_trigger NetworkError
      | Responded body \<Rightarrow>
          (case JSON_parse body of
             Inl e \<Rightarrow> Error_trigger e
           | Inr data \<Rightarrow>
               (if data = JNull then Error_trigger TypeError
                else if truthy_json (lookup data ''success'') then Log_results (lookup data ''results'')
                else Warn_failed (lookup data ''error''))))"

definition trigger_settled :: "fetch_outcome \<Rightarrow> state \<Rightarrow> state" where
  "trigger_settled outcome st = st\<lparr>console := console st @ [trigger_result outcome]\<rparr>"

subsection \<open>The threshold evaluator: checkAlerts\<close>

text \<open>
  A call of \<open>notifyUser\<close> by \<open>checkAlerts\<close> is a breach event: which alert, and which of its
  two thresholds.
\<close>

datatype breach = CrossedAbove alert | DroppedBelow alert

text \<open>The body of the \<^verbatim>\<open>forEach\<close>: the calls for one alert, in order.\<close>

definition alert_breaches :: "alert \<Rightarrow> real \<Rightarrow> breach list" where
  "alert_breaches a price =
     (if crossed_above (high a) price then [CrossedAbove a] else []) @
     (if dropped_below (low a) price then [DroppedBelow a] else [])"

definition checkAlerts_calls :: "alert list \<Rightarrow> string \<Rightarrow> real \<Rightarrow> breach list" where
  "checkAlerts_calls alerts symb price =
     concat (map (\<lambda>a. alert_breaches a price) (filter (\<lambda>a. symbol a = symb) alerts))"

text \<open>
  The texts of the messages. How a number is printed in a template and by
  \<^verbatim>\<open>toFixed(2)\<close> is a parameter; null is printed as \<^verbatim>\<open>null\<close>. The characters outside
  ASCII are given by their UTF-8 bytes.
\<close>

record number_format =
  num_string :: "real \<Rightarrow> string"
  toFixed2 :: "real \<Rightarrow> string"

definition template :: "number_format \<Rightarrow> real option \<Rightarrow> string" where
  "template F x = (case x of None \<Rightarrow> ''null'' | Some r \<Rightarrow> num_string F r)"

definition rocket :: string where
  "rocket = [CHR 0xF0, CHR 0x9F, CHR 0x9A, CHR 0x80]"

definition red_triangle :: string where
  "red_triangle = [CHR 0xF0, CHR 0x9F, CHR 0x94, CHR 0xBB]"

definition rupee :: string where
  "rupee = [CHR 0xE2, CHR 0x82, CHR 0xB9]"

fun message :: "number_format \<Rightarrow> string \<Rightarrow> real \<Rightarrow> breach \<Rightarrow> string" where
  "message F symb price (CrossedAbove a) =
     rocket @ '' '' @ symb @ '' crossed above '' @ rupee @ template F (high a) @
     ''! Current: '' @ rupee @ toFixed2 F price"
| "message F symb price (DroppedBelow a) =
     red_triangle @ '' '' @ symb @ '' dropped below '' @ rupee @ template F (low a) @
     ''! Current: '' @ rupee @ toFixed2 F price"

definition checkAlerts :: "number_format \<Rightarrow> string \<Rightarrow> real \<Rightarrow> state \<Rightarrow> state" where
  "checkAlerts F symb price st =
     foldl (\<lambda>s b. notifyUser (message F symb price b) s) st
       (checkAlerts_calls (stockVisionAlerts st) symb price)"

subsection \<open>The price simulator: the timer of startMockTicker\<close>

text \<open>\<^verbatim>\<open>randomAlert.high || randomAlert.low || 3000\<close>\<close>

definition basePrice :: "alert \<Rightarrow> real" where
  "basePrice a = or_else (high a) (or_else (low a) 3000)"

text \<open>\<^verbatim>\<open>basePrice + (Math.random() - 0.5) * (basePrice * 0.1)\<close>, \<open>u\<close> the random draw.\<close>

definition currentPrice :: "real \<Rightarrow> real \<Rightarrow> real" where
  "currentPrice base u = base + (u - 0.5) * (base * 0.1)"

text \<open>
  One run of the timer's callback, with the two random draws \<open>u1\<close> and \<open>u2\<close>. An index
  outside the array gives \<^verbatim>\<open>undefined\<close>, and reading its field throws.
\<close>

definition mockTick :: "number_format \<Rightarrow> real \<Rightarrow> real \<Rightarrow> state \<Rightarrow> js_error + state" where
  "mockTick F u1 u2 st =
     (let alerts = stockVisionAlerts st
      in if length alerts = 0 then Inr st
         else
           (let i = \<lfloor>u1 * real (length alerts)\<rfloor>
            in if 0 \<le> i \<and> i < int (length alerts) then
                 (let randomAlert = alerts ! nat i
                  in Inr (checkAlerts F (symbol randomAlert)
                            (currentPrice (basePrice randomAlert) u2) st))
               else Inl TypeError))"

subsection \<open>Example values\<close>

text \<open>
  A page just loaded, with the permission to notify granted: nothing is stored and nothing
  has been dispatched.
\<close>

definition initial_state :: state where
  "initial_state =
     \<lparr>stockVisionAlerts = [], lastNotification = None, granted = True, timers = 0,
      shown = [], requests = [], console = [], dialogs = []\<rparr>"

text \<open>An alert with a high threshold only, and one with both thresholds.\<close>

definition reliance :: alert where
  "reliance = \<lparr>symbol = ''RELIANCE'', high = Some 3000, low = None, alert_id = 1\<rparr>"

definition tcs :: alert where
  "tcs = \<lparr>symbol = ''TCS'', high = Some 4000, low = Some 3500, alert_id = 2\<rparr>"

text \<open>
  The messages that \<open>checkAlerts\<close> builds for the first alert at the price 3050 and for the
  second at the price 3499.
\<close>

definition reliance_message :: string where
  "reliance_message =
     rocket @ '' RELIANCE crossed above '' @ rupee @ ''3000! Current: '' @ rupee @ ''3050.00''"

definition tcs_message :: string where
  "tcs_message =
     red_triangle @ '' TCS dropped below '' @ rupee @ ''3500! Current: '' @ rupee @ ''3499.00''"

text \<open>A text in double quotes, for writing JSON texts.\<close>

definition dq :: "string \<Rightarrow> string" where
  "dq s = CHR 0x22 # s @ [CHR 0x22]"

text \<open>
  The body of a response of \<^verbatim>\<open>/api/alert/trigger\<close> that reports a failure:
  \<^verbatim>\<open>{"success":false,"error":"Twilio credentials not configured"}\<close>
\<close>

definition twilio_failure :: string where
  "twilio_failure =
     ''{'' @ dq ''success'' @ '':false,'' @ dq ''error'' @ '':'' @
     dq ''Twilio credentials not configured'' @ ''}''"

subsection \<open>The invariant of the store\<close>

definition has_threshold :: "alert \<Rightarrow> bool" where
  "has_threshold a = (\<not> (high a = None \<and> low a = None))"

definition store_invariant :: "state \<Rightarrow> bool" where
  "store_invariant st = list_all has_threshold (stockVisionAlerts st)"

section \<open>Properties\<close>

subsection \<open>Reading the store\<close>

lemma JSON_parse_error: "JSON_parse text = Inl e \<Longrightarrow> e = SyntaxError"
  by (auto simp: JSON_parse_def split: option.splits)

text \<open>
  Claim C1, as stated, fails: when the key holds the malformed text \<^verbatim>\<open>[{\<close>,
  \<open>getAlerts\<close> does not return the empty sequence; the exception of \<^verbatim>\<open>JSON.parse\<close>
  reaches the caller.
\<close>

theorem getAlerts_malformed_raises: "getAlerts (Some ''[{'') = Inl SyntaxError"
  by code_simp

text \<open>
  Claim C1, amended. \<open>getAlerts\<close> returns the empty sequence when the key is unset or
  holds the empty text. For every other content it does what \<^verbatim>\<open>JSON.parse\<close> does on
  that content: it returns the parsed value, or it raises. Whenever it raises, the key holds
  a non-empty text that is malformed JSON, and the exception is the \<open>SyntaxError\<close> of
  \<^verbatim>\<open>JSON.parse\<close>.
\<close>

theorem getAlerts_default_or_parse:
  "getAlerts None = Inr (JArr []) \<and> getAlerts (Some []) = Inr (JArr []) \<and>
   (\<forall>s. s \<noteq> [] \<longrightarrow> getAlerts (Some s) = JSON_parse s) \<and>
   (\<forall>item e. getAlerts item = Inl e \<longrightarrow>
      e = SyntaxError \<and> (\<exists>s. item = Some s \<and> s \<noteq> [] \<and> JSON_parse s = Inl SyntaxError))"
proof -
  have empty: "JSON_parse ''[]'' = Inr (JArr [])"
    by code_simp
  have unset: "getAlerts None = Inr (JArr [])" and blank: "getAlerts (Some []) = Inr (JArr [])"
    using empty by (simp_all add: getAlerts_def)
  have other: "getAlerts (Some s) = JSON_parse s" if "s \<noteq> []" for s
    using that by (simp add: getAlerts_def)
  have raised: "e = SyntaxError \<and> (\<exists>s. item = Some s \<and> s \<noteq> [] \<and> JSON_parse s = Inl SyntaxError)"
    if r: "getAlerts item = Inl e" for item e
  proof (cases item)
    case None
    with r unset show ?thesis by simp
  next
    case (Some s)
    show ?thesis
    proof (cases "s = []")
      case True
      with r Some blank show ?thesis by simp
    next
      case False
      with r Some other have p: "JSON_parse s = Inl e" by simp
      then have "e = SyntaxError" by (rule JSON_parse_error)
      with p Some False show ?thesis by simp
    qed
  qed
  show ?thesis
    using unset blank other raised by blast
qed

theorem getAlerts_default_or_parse_witness:
  "''{'' \<noteq> [] \<and> getAlerts (Some ''{'') = JSON_parse ''{'' \<and> JSON_parse ''{'' = Inl SyntaxError"
proof -
  have "JSON_parse ''{'' = Inl SyntaxError"
    by code_simp
  then show ?thesis
    using getAlerts_default_or_parse by simp
qed

subsection \<open>The alert store\<close>



text \<open>
  Deleting keeps the invariant of the store, and so does a submission whose two values are
  not infinite.
\<close>

lemma deleteAlert_invariant: "store_invariant st \<Longrightarrow> store_invariant (deleteAlert i st)"
  by (auto simp: store_invariant_def deleteAlert_def list_all_iff)

lemma has_threshold_new:
  assumes "\<not> (falsy hi \<and> falsy lo)"
    and "hi \<noteq> PosInf" and "hi \<noteq> NegInf" and "lo \<noteq> PosInf" and "lo \<noteq> NegInf"
  shows "has_threshold
    \<lparr>symbol = symb, high = stringified (or_null hi), low = stringified (or_null lo),
     alert_id = now\<rparr>"
  using assms by (cases hi; cases lo) (auto simp: has_threshold_def or_null_def)

lemma handleAlertSubmit_invariant:
  assumes "store_invariant st"
    and "hi \<noteq> PosInf" and "hi \<noteq> NegInf" and "lo \<noteq> PosInf" and "lo \<noteq> NegInf"
  shows "store_invariant (handleAlertSubmit symb hi lo now st)"
  using assms has_threshold_new [of hi lo symb now]
  by (auto simp: store_invariant_def handleAlertSubmit_def)

lemma handleAlertSubmit_rejects:
  "falsy hi \<and> falsy lo \<Longrightarrow>
   stockVisionAlerts (handleAlertSubmit symb hi lo now st) = stockVisionAlerts st"
  by (simp add: handleAlertSubmit_def)

text \<open>
  Claim C9. The code does not keep the invariant that every stored alert has a high or a
  low threshold that is not null. A submission whose high field reads as an infinite number
  (the text \<^verbatim>\<open>1e309\<close>) and whose low field is blank is not rejected, since an infinite
  number is truthy; \<^verbatim>\<open>JSON.stringify\<close> writes the infinite threshold as null, and the
  alert stored has both thresholds null.
\<close>

theorem handleAlertSubmit_infinite_threshold:
  "\<not> (falsy PosInf \<and> falsy NaN) \<and>
   store_invariant initial_state \<and>
   stockVisionAlerts (handleAlertSubmit ''TCS'' PosInf NaN 2 initial_state) =
     [\<lparr>symbol = ''TCS'', high = None, low = None, alert_id = 2\<rparr>] \<and>
   \<not> store_invariant (handleAlertSubmit ''TCS'' PosInf NaN 2 initial_state)"
  by (simp add: handleAlertSubmit_def store_invariant_def has_threshold_def initial_state_def
      or_null_def)

subsection \<open>The threshold evaluator\<close>

lemma count_calls_high:
  "count_list (checkAlerts_calls alerts symb price) (CrossedAbove a) =
     (if symbol a = symb \<and> crossed_above (high a) price then count_list alerts a else 0)"
  by (induction alerts) (auto simp: checkAlerts_calls_def alert_breaches_def)

lemma count_calls_low:
  "count_list (checkAlerts_calls alerts symb price) (DroppedBelow a) =
     (if symbol a = symb \<and> dropped_below (low a) price then count_list alerts a else 0)"
  by (induction alerts) (auto simp: checkAlerts_calls_def alert_breaches_def)

lemma crossed_above_iff: "crossed_above t price \<longleftrightarrow> (\<exists>h. t = Some h \<and> h \<noteq> 0 \<and> h < price)"
  by (cases t) auto

lemma dropped_below_iff: "dropped_below t price \<longleftrightarrow> (\<exists>l. t = Some l \<and> l \<noteq> 0 \<and> price < l)"
  by (cases t) auto

lemma high_call_iff:
  "CrossedAbove a \<in> set (checkAlerts_calls alerts symb price) \<longleftrightarrow>
     a \<in> set alerts \<and> symbol a = symb \<and> crossed_above (high a) price"
  by (auto simp: checkAlerts_calls_def alert_breaches_def)

lemma low_call_iff:
  "DroppedBelow a \<in> set (checkAlerts_calls alerts symb price) \<longleftrightarrow>
     a \<in> set alerts \<and> symbol a = symb \<and> dropped_below (low a) price"
  by (auto simp: checkAlerts_calls_def alert_breaches_def)

lemma notifyUser_alerts: "stockVisionAlerts (notifyUser m st) = stockVisionAlerts st"
  by (simp add: notifyUser_def)

lemma foldl_notifyUser_alerts:
  "stockVisionAlerts (foldl (\<lambda>s b. notifyUser (f b) s) st bs) = stockVisionAlerts st"
  by (induction bs arbitrary: st) (simp_all add: notifyUser_alerts)

text \<open>
  Claim C2, as stated, fails: the stored alert below has its high threshold set, to 0, and
  the price 1 is greater than it, yet \<open>checkAlerts\<close> emits no event.
\<close>

theorem checkAlerts_zero_high_silent:
  "high \<lparr>symbol = ''X'', high = Some 0, low = None, alert_id = 1\<rparr> = Some 0 \<and>
   (0::real) < 1 \<and>
   checkAlerts_calls [\<lparr>symbol = ''X'', high = Some 0, low = None, alert_id = 1\<rparr>] ''X'' 1 = []"
  by (simp add: checkAlerts_calls_def alert_breaches_def)

text \<open>
  Claim C2, amended. For every stored alert sequence, symbol and price, \<open>checkAlerts\<close> emits
  a high-breach event for an alert once for each time the alert is stored, when its symbol
  is the given one, its high is set, is not 0 and is less than the price, and never
  otherwise; the same for the low-breach event, when its low is set, is not 0 and is greater
  than the price. Both events are emitted for an alert that meets both conditions. An alert
  whose low is null never yields a low-breach event. The stored sequence is left as it was.
\<close>

theorem checkAlerts_calls_exact:
  "count_list (checkAlerts_calls alerts symb price) (CrossedAbove a) =
     (if symbol a = symb \<and> (\<exists>h. high a = Some h \<and> h \<noteq> 0 \<and> h < price)
      then count_list alerts a else 0) \<and>
   count_list (checkAlerts_calls alerts symb price) (DroppedBelow a) =
     (if symbol a = symb \<and> (\<exists>l. low a = Some l \<and> l \<noteq> 0 \<and> price < l)
      then count_list alerts a else 0) \<and>
   (low a = None \<longrightarrow> DroppedBelow a \<notin> set (checkAlerts_calls alerts symb price)) \<and>
   stockVisionAlerts (checkAlerts F symb price st) = stockVisionAlerts st"
proof -
  have "low a = None \<longrightarrow> DroppedBelow a \<notin> set (checkAlerts_calls alerts symb price)"
    by (simp add: low_call_iff)
  moreover have "stockVisionAlerts (checkAlerts F symb price st) = stockVisionAlerts st"
    by (simp add: checkAlerts_def foldl_notifyUser_alerts)
  ultimately show ?thesis
    by (simp only: count_calls_high count_calls_low crossed_above_iff dropped_below_iff)
qed

theorem checkAlerts_calls_exact_witness:
  "low reliance = None \<and>
   DroppedBelow reliance \<notin> set (checkAlerts_calls [reliance, tcs] ''RELIANCE'' 3050) \<and>
   count_list (checkAlerts_calls [reliance, tcs] ''RELIANCE'' 3050) (CrossedAbove reliance) = 1 \<and>
   count_list (checkAlerts_calls [reliance, tcs] ''RELIANCE'' 3050) (CrossedAbove tcs) = 0"
  using checkAlerts_calls_exact [of "[reliance, tcs]" "''RELIANCE''" 3050 reliance]
    checkAlerts_calls_exact [of "[reliance, tcs]" "''RELIANCE''" 3050 tcs]
  by (simp add: reliance_def tcs_def)

text \<open>
  Claim C6. For every stored alert and every price equal to one of its thresholds,
  \<open>checkAlerts\<close> emits no breach event for that threshold: a high-breach event of an alert
  is emitted only when the price is greater than its high, a low-breach event only when the
  price is less than its low.
\<close>

theorem no_breach_at_threshold:
  "(high a = Some price \<longrightarrow> CrossedAbove a \<notin> set (checkAlerts_calls alerts symb price)) \<and>
   (low a = Some price \<longrightarrow> DroppedBelow a \<notin> set (checkAlerts_calls alerts symb price)) \<and>
   (CrossedAbove a \<in> set (checkAlerts_calls alerts symb price) \<longrightarrow>
      (\<exists>h. high a = Some h \<and> h < price)) \<and>
   (DroppedBelow a \<in> set (checkAlerts_calls alerts symb price) \<longrightarrow>
      (\<exists>l. low a = Some l \<and> price < l))"
  by (auto simp: high_call_iff low_call_iff crossed_above_iff dropped_below_iff)

theorem no_breach_at_threshold_witness:
  "high tcs = Some 4000 \<and> CrossedAbove tcs \<notin> set (checkAlerts_calls [reliance, tcs] ''TCS'' 4000) \<and>
   low tcs = Some 3500 \<and> DroppedBelow tcs \<notin> set (checkAlerts_calls [reliance, tcs] ''TCS'' 3500) \<and>
   checkAlerts_calls [reliance, tcs] ''TCS'' 4000 = [] \<and>
   checkAlerts_calls [reliance, tcs] ''TCS'' 3499 = [DroppedBelow tcs]"
  using no_breach_at_threshold [of tcs 4000 "[reliance, tcs]" "''TCS''"]
    no_breach_at_threshold [of tcs 3500 "[reliance, tcs]" "''TCS''"]
  by (simp add: reliance_def tcs_def checkAlerts_calls_def alert_breaches_def)

subsection \<open>The price simulator\<close>

text \<open>
  With no alert stored the timer does nothing; with a draw in the unit interval it
  evaluates one of the stored alerts at its simulated price.
\<close>

lemma mockTick_empty: "stockVisionAlerts st = [] \<Longrightarrow> mockTick F u1 u2 st = Inr st"
  by (simp add: mockTick_def)

lemma mockTick_draw:
  assumes "stockVisionAlerts st \<noteq> []" and "0 \<le> u1" and "u1 < 1"
  shows "\<exists>a \<in> set (stockVisionAlerts st).
    mockTick F u1 u2 st = Inr (checkAlerts F (symbol a) (currentPrice (basePrice a) u2) st)"
proof -
  define n where "n = length (stockVisionAlerts st)"
  define i where "i = \<lfloor>u1 * real n\<rfloor>"
  have npos: "0 < n"
    using assms(1) by (simp add: n_def)
  have "0 \<le> u1 * real n"
    using assms(2) by simp
  then have lo: "0 \<le> i"
    by (simp add: i_def)
  have "u1 * real n < real n"
    using assms(3) npos by simp
  then have hi: "i < int n"
    by (simp add: i_def floor_less_iff)
  then have "nat i < n"
    using lo by simp
  then have "stockVisionAlerts st ! nat i \<in> set (stockVisionAlerts st)"
    by (simp add: n_def)
  moreover have "mockTick F u1 u2 st =
      Inr (checkAlerts F (symbol (stockVisionAlerts st ! nat i))
             (currentPrice (basePrice (stockVisionAlerts st ! nat i)) u2) st)"
    using lo hi npos by (simp add: mockTick_def Let_def n_def i_def)
  ultimately show ?thesis
    by blast
qed

text \<open>
  Claim C4. For every positive reference price \<open>R\<close> and every random draw \<open>u\<close> with
  \<open>0 \<le> u < 1\<close>, the simulated price lies in the closed interval from \<open>0.95 R\<close> to
  \<open>1.05 R\<close>.
\<close>

theorem currentPrice_within_five_percent:
  assumes "0 < R" and "0 \<le> u" and "u < 1"
  shows "0.95 * R \<le> currentPrice R u \<and> currentPrice R u \<le> 1.05 * R"
proof -
  define d where "d = (u - 0.5) * (R * 0.1)"
  have lo: "- 0.5 \<le> u - 0.5" and hi: "u - 0.5 \<le> 0.5"
    using assms by simp_all
  have pos: "0 \<le> R * 0.1"
    using assms by simp
  have "- 0.5 * (R * 0.1) \<le> d"
    unfolding d_def using lo pos by (rule mult_right_mono)
  moreover have "d \<le> 0.5 * (R * 0.1)"
    unfolding d_def using hi pos by (rule mult_right_mono)
  moreover have "currentPrice R u = R + d"
    by (simp add: currentPrice_def d_def)
  ultimately show ?thesis
    by simp
qed

theorem currentPrice_within_five_percent_witness:
  "(0::real) < 3000 \<and> (0::real) \<le> 0 \<and> (0::real) < 1 \<and>
   0.95 * 3000 \<le> currentPrice 3000 0 \<and> currentPrice 3000 0 \<le> 1.05 * 3000"
  using currentPrice_within_five_percent [of 3000 0] by simp

text \<open>
  Claim C5, as stated, fails: the alert below has its high threshold set, to 0, and the
  reference price is not its high but its low, 100.
\<close>

theorem basePrice_zero_high_skipped:
  "high \<lparr>symbol = ''X'', high = Some 0, low = Some 100, alert_id = 1\<rparr> = Some 0 \<and>
   basePrice \<lparr>symbol = ''X'', high = Some 0, low = Some 100, alert_id = 1\<rparr> = 100"
  by (simp add: basePrice_def)

text \<open>
  Claim C5, amended. For every stored alert, the reference price is the alert's high when
  high is set and is not 0, otherwise the alert's low when low is set and is not 0,
  otherwise 3000.
\<close>

theorem basePrice_cases:
  "(\<forall>h. high a = Some h \<and> h \<noteq> 0 \<longrightarrow> basePrice a = h) \<and>
   (\<forall>l. (high a = None \<or> high a = Some 0) \<and> low a = Some l \<and> l \<noteq> 0 \<longrightarrow> basePrice a = l) \<and>
   ((high a = None \<or> high a = Some 0) \<and> (low a = None \<or> low a = Some 0) \<longrightarrow> basePrice a = 3000)"
  by (auto simp: basePrice_def)

theorem basePrice_cases_witness:
  "high reliance = Some 3000 \<and> (3000::real) \<noteq> 0 \<and> basePrice reliance = 3000 \<and>
   high (tcs\<lparr>high := None\<rparr>) = None \<and> low (tcs\<lparr>high := None\<rparr>) = Some 3500 \<and>
   basePrice (tcs\<lparr>high := None\<rparr>) = 3500 \<and>
   basePrice (tcs\<lparr>high := None, low := None\<rparr>) = 3000"
  using basePrice_cases [of reliance] basePrice_cases [of "tcs\<lparr>high := None\<rparr>"]
    basePrice_cases [of "tcs\<lparr>high := None, low := None\<rparr>"]
  by (simp add: reliance_def tcs_def)

subsection \<open>A threshold of 0\<close>

text \<open>
  Claim C10. A threshold of 0 is treated as a threshold that is not set.
  \<open>handleAlertSubmit\<close> stores a submitted 0 as null (or rejects the submission, when the
  other value is falsy too); the reference price of an alert whose high (or low) is 0 is
  that of the same alert with the threshold null; and \<open>checkAlerts\<close> emits no breach event
  for a threshold that is 0, whatever the price.
\<close>

theorem zero_threshold_is_unset:
  "stockVisionAlerts (handleAlertSubmit symb (Num 0) lo now st) =
     (if falsy lo then stockVisionAlerts st
      else stockVisionAlerts st @
        [\<lparr>symbol = symb, high = None, low = stringified (or_null lo), alert_id = now\<rparr>]) \<and>
   stockVisionAlerts (handleAlertSubmit symb hi (Num 0) now st) =
     (if falsy hi then stockVisionAlerts st
      else stockVisionAlerts st @
        [\<lparr>symbol = symb, high = stringified (or_null hi), low = None, alert_id = now\<rparr>]) \<and>
   basePrice (a\<lparr>high := Some 0\<rparr>) = basePrice (a\<lparr>high := None\<rparr>) \<and>
   basePrice (a\<lparr>low := Some 0\<rparr>) = basePrice (a\<lparr>low := None\<rparr>) \<and>
   (high a = Some 0 \<longrightarrow> CrossedAbove a \<notin> set (checkAlerts_calls alerts symb price)) \<and>
   (low a = Some 0 \<longrightarrow> DroppedBelow a \<notin> set (checkAlerts_calls alerts symb price))"
  by (simp add: handleAlertSubmit_def or_null_def basePrice_def high_call_iff low_call_iff)

theorem zero_threshold_is_unset_witness:
  "stockVisionAlerts (handleAlertSubmit ''TCS'' (Num 0) (Num 3500) 2 initial_state) =
     [\<lparr>symbol = ''TCS'', high = None, low = Some 3500, alert_id = 2\<rparr>] \<and>
   basePrice (tcs\<lparr>high := Some 0\<rparr>) = 3500 \<and>
   high (tcs\<lparr>high := Some 0\<rparr>) = Some 0 \<and>
   CrossedAbove (tcs\<lparr>high := Some 0\<rparr>) \<notin> set (checkAlerts_calls [tcs\<lparr>high := Some 0\<rparr>] ''TCS'' 5000)"
  using zero_threshold_is_unset [of "''TCS''" "Num 3500" 2 initial_state "Num 3500"
      "tcs\<lparr>high := Some 0\<rparr>" "[tcs\<lparr>high := Some 0\<rparr>]" 5000]
  by (simp add: tcs_def initial_state_def basePrice_def or_null_def)

subsection \<open>The notification dispatcher\<close>

text \<open>The messages that \<open>checkAlerts\<close> passes to \<open>notifyUser\<close> are never empty.\<close>

lemma message_not_empty: "message F symb price b \<noteq> []"
  by (cases b) (simp_all add: rocket_def red_triangle_def)

lemma reliance_message_is_built:
  assumes "num_string F 3000 = ''3000''" and "toFixed2 F 3050 = ''3050.00''"
  shows "message F ''RELIANCE'' 3050 (CrossedAbove reliance) = reliance_message"
  using assms by (simp add: reliance_message_def reliance_def template_def)

lemma reliance_message_not_empty: "reliance_message \<noteq> []"
  by (simp add: reliance_message_def rocket_def)

lemma tcs_message_differs: "tcs_message \<noteq> reliance_message"
  by (simp add: tcs_message_def reliance_message_def rocket_def red_triangle_def)

text \<open>
  The empty message, which \<open>checkAlerts\<close> never passes, would not be deduplicated: the
  cached empty string is falsy.
\<close>

lemma notifyUser_empty_message_repeats:
  "lastNotification (notifyUser [] initial_state) = Some [] \<and>
   requests (notifyUser [] (notifyUser [] initial_state)) = [[], []] \<and>
   shown (notifyUser [] (notifyUser [] initial_state)) = [[], []]"
  by (simp add: notifyUser_def is_duplicate_def initial_state_def)

text \<open>
  Claim C3, as stated, fails when the permission to notify is not granted: two calls with
  the message that \<open>checkAlerts\<close> builds for the first alert post one request, and the
  cache holds the message after the first call, but no notification is shown, where the
  claim says exactly one.
\<close>

theorem notifyUser_without_permission_shows_nothing:
  "lastNotification (notifyUser reliance_message (initial_state\<lparr>granted := False\<rparr>)) =
     Some reliance_message \<and>
   requests (notifyUser reliance_message
     (notifyUser reliance_message (initial_state\<lparr>granted := False\<rparr>))) = [reliance_message] \<and>
   shown (notifyUser reliance_message
     (notifyUser reliance_message (initial_state\<lparr>granted := False\<rparr>))) = []"
  using reliance_message_not_empty
  by (simp add: notifyUser_def is_duplicate_def initial_state_def)

text \<open>
  Claim C3, amended. Every message that \<open>checkAlerts\<close> passes is not empty. For every
  message \<open>m\<close> that is not empty and is not already in the cache: after \<open>notifyUser m\<close> the
  cache holds \<open>m\<close>, one request has been posted and one notification shown when the
  permission is granted, none when it is not; a second \<open>notifyUser m\<close> while the cache
  holds \<open>m\<close> changes nothing. When the timer has cleared the cache, or when the second
  message differs from \<open>m\<close>, the second call posts its own request and, when the permission
  is granted, shows its own notification. Nothing is said of the empty message.
\<close>

theorem notifyUser_deduplicates:
  assumes "m \<noteq> []" and "lastNotification st \<noteq> Some m"
  shows "notifyUser m (notifyUser m st) = notifyUser m st \<and>
    lastNotification (notifyUser m st) = Some m \<and>
    requests (notifyUser m st) = requests st @ [m] \<and>
    shown (notifyUser m st) = (if granted st then shown st @ [m] else shown st) \<and>
    requests (notifyUser m (cache_timer_fires (notifyUser m st))) = requests st @ [m, m] \<and>
    shown (notifyUser m (cache_timer_fires (notifyUser m st))) =
      (if granted st then shown st @ [m, m] else shown st) \<and>
    (\<forall>m'. m' \<noteq> m \<longrightarrow>
       requests (notifyUser m' (notifyUser m st)) = requests st @ [m, m'] \<and>
       shown (notifyUser m' (notifyUser m st)) =
         (if granted st then shown st @ [m, m'] else shown st)) \<and>
    (\<forall>F symb price b. message F symb price b \<noteq> [])"
proof -
  have first: "\<not> is_duplicate (lastNotification st) m"
    using assms(2) by (auto simp: is_duplicate_def split: option.splits)
  have again: "is_duplicate (Some m) m"
    using assms(1) by (simp add: is_duplicate_def)
  have other: "\<not> is_duplicate (Some m) m'" if "m' \<noteq> m" for m'
    using that by (auto simp: is_duplicate_def)
  have cleared: "\<not> is_duplicate None m"
    by (simp add: is_duplicate_def)
  show ?thesis
    using first again other cleared
    by (simp add: notifyUser_def cache_timer_fires_def message_not_empty)
qed

theorem notifyUser_deduplicates_witness:
  "reliance_message \<noteq> [] \<and> lastNotification initial_state \<noteq> Some reliance_message \<and>
   requests (notifyUser reliance_message (notifyUser reliance_message initial_state)) =
     [reliance_message] \<and>
   shown (notifyUser reliance_message (notifyUser reliance_message initial_state)) =
     [reliance_message] \<and>
   requests (notifyUser reliance_message
     (cache_timer_fires (notifyUser reliance_message initial_state))) =
     [reliance_message, reliance_message] \<and>
   tcs_message \<noteq> reliance_message \<and>
   requests (notifyUser tcs_message (notifyUser reliance_message initial_state)) =
     [reliance_message, tcs_message]"
proof -
  have h1: "reliance_message \<noteq> []"
    by (rule reliance_message_not_empty)
  have h2: "lastNotification initial_state \<noteq> Some reliance_message"
    by (simp add: initial_state_def)
  have g: "granted initial_state" and r: "requests initial_state = []"
    and s: "shown initial_state = []"
    by (simp_all add: initial_state_def)
  show ?thesis
    using notifyUser_deduplicates [OF h1 h2] h1 h2 g r s tcs_message_differs by simp
qed

text \<open>
  Claim C7. For every message that is not a duplicate, however the request ends, the
  callbacks of the request only add one entry to the console: the cache still holds the
  message, the notification shown (when the permission is granted) and the request posted
  are as \<open>notifyUser\<close> left them, and no second request is posted. A network error is
  logged as an error, a response whose \<^verbatim>\<open>success\<close> is false as a warning with the
  \<^verbatim>\<open>error\<close> of the response.
\<close>

theorem failed_trigger_is_logged_only:
  assumes "\<not> is_duplicate (lastNotification st) m"
  shows "lastNotification (trigger_settled outcome (notifyUser m st)) = Some m \<and>
    shown (trigger_settled outcome (notifyUser m st)) =
      (if granted st then shown st @ [m] else shown st) \<and>
    requests (trigger_settled outcome (notifyUser m st)) = requests st @ [m] \<and>
    timers (trigger_settled outcome (notifyUser m st)) = Suc (timers st) \<and>
    stockVisionAlerts (trigger_settled outcome (notifyUser m st)) = stockVisionAlerts st \<and>
    dialogs (trigger_settled outcome (notifyUser m st)) = dialogs st \<and>
    console (trigger_settled outcome (notifyUser m st)) =
      console st @ [Log_alert m, trigger_result outcome] \<and>
    trigger_result Rejected = Error_trigger NetworkError \<and>
    (\<forall>body ms. JSON_parse body = Inr (JObj ms) \<and> lookup (JObj ms) ''success'' = Some (JBool False) \<longrightarrow>
       trigger_result (Responded body) = Warn_failed (lookup (JObj ms) ''error''))"
proof -
  have "trigger_result (Responded body) = Warn_failed (lookup (JObj ms) ''error'')"
    if "JSON_parse body = Inr (JObj ms)" and "lookup (JObj ms) ''success'' = Some (JBool False)"
    for body ms
    using that by (simp add: trigger_result_def)
  moreover have "trigger_result Rejected = Error_trigger NetworkError"
    by (simp add: trigger_result_def)
  ultimately show ?thesis
    using assms by (simp add: notifyUser_def trigger_settled_def)
qed

theorem failed_trigger_is_logged_only_witness:
  "\<not> is_duplicate (lastNotification initial_state) ''up'' \<and>
   trigger_result (Responded twilio_failure) =
     Warn_failed (Some (JStr (map of_char ''Twilio credentials not configured''))) \<and>
   lastNotification (trigger_settled (Responded twilio_failure) (notifyUser ''up'' initial_state)) =
     Some ''up'' \<and>
   shown (trigger_settled (Responded twilio_failure) (notifyUser ''up'' initial_state)) = [''up''] \<and>
   requests (trigger_settled (Responded twilio_failure) (notifyUser ''up'' initial_state)) = [''up'']"
proof -
  have h: "\<not> is_duplicate (lastNotification initial_state) ''up''"
    by (simp add: is_duplicate_def initial_state_def)
  have e: "trigger_result (Responded twilio_failure) =
     Warn_failed (Some (JStr (map of_char ''Twilio credentials not configured'')))"
    by code_simp
  have g: "granted initial_state" and r: "requests initial_state = []"
    and s: "shown initial_state = []"
    by (simp_all add: initial_state_def)
  show ?thesis
    using failed_trigger_is_logged_only [OF h, of "Responded twilio_failure"] h e g r s by simp
qed

end
